theory Spec2Isabelle
  imports Main "HOL-Library.Sublist"
begin

section \<open>The conformance middleware of oaschecker\<close>

text \<open>
  The development embeds \<^verbatim>\<open>middleware.go\<close>: the type \<^verbatim>\<open>Middleware\<close> with its methods
  \<^verbatim>\<open>ServeHTTP\<close>, \<^verbatim>\<open>Validate\<close> and \<^verbatim>\<open>addIssue\<close>. The router and the validation functions
  of \<^verbatim>\<open>openapi3filter\<close>, the wrapped handler and the caller's response writer are not
  part of the package; they are parameters of the model.

  Conventions.
  \<^item> A Go \<^verbatim>\<open>error\<close> is represented by the text of its \<^verbatim>\<open>Error\<close> method, which is what
    \<^verbatim>\<open>fmt.Sprintf("%v", err)\<close> prints; \<^verbatim>\<open>nil\<close> is \<open>None\<close>.
  \<^item> A byte slice is a \<open>string\<close> (a list of 8-bit characters).
  \<^item> The request is handed to the validation function and to the handler by
    pointer. Reading the body consumes it, so both return the body as they leave
    it; method, URL and header are plain data that they only read.
  \<^item> The mutex of \<^verbatim>\<open>addIssue\<close> has no counterpart: the model runs one exchange at a
    time.
  \<^item> Router, handler and validation calls are assumed to return: a panic in one of
    them unwinds \<^verbatim>\<open>ServeHTTP\<close> and is not a result of the model.
\<close>

subsection \<open>Requests, recorders and writers\<close>

type_synonym bytes = string

type_synonym header = "string \<rightharpoonup> string list"

type_synonym pathParams = "string \<rightharpoonup> string"

text \<open>\<^verbatim>\<open>http.Request\<close>, with the fields an exchange can observe. The type \<open>'u\<close> is
  \<^verbatim>\<open>url.URL\<close>.\<close>

record 'u Request =
  Method :: string
  URL :: 'u
  Header :: header
  Body :: bytes

text \<open>\<^verbatim>\<open>httptest.ResponseRecorder\<close> and \<^verbatim>\<open>httptest.NewRecorder\<close>.\<close>

record ResponseRecorder =
  Code :: int
  HeaderMap :: header
  Body :: bytes

definition NewRecorder :: ResponseRecorder where
  "NewRecorder = \<lparr>Code = 200, HeaderMap = Map.empty, Body = []\<rparr>"

text \<open>
  The caller's \<^verbatim>\<open>http.ResponseWriter\<close> is an interface value whose implementation is
  unknown. Its state is the map that \<^verbatim>\<open>Header()\<close> returns together with the calls
  made so far, in order; a \<open>WriteHeader\<close> call is kept with the header map in force
  when it was made.
\<close>

datatype wcall = WriteHeader int header | Write bytes

record ResponseWriter =
  Header :: header
  written :: "wcall list"

definition rw_WriteHeader :: "int \<Rightarrow> ResponseWriter \<Rightarrow> ResponseWriter" where
  "rw_WriteHeader code w =
     w\<lparr>written := written w @ [WriteHeader code (ResponseWriter.Header w)]\<rparr>"

definition rw_Write :: "bytes \<Rightarrow> ResponseWriter \<Rightarrow> ResponseWriter" where
  "rw_Write b w = w\<lparr>written := written w @ [Write b]\<rparr>"

text \<open>\<^verbatim>\<open>bytes.Buffer.WriteTo\<close>: one \<^verbatim>\<open>Write\<close> of the whole content, none when the buffer
  is empty.\<close>

definition WriteTo :: "bytes \<Rightarrow> ResponseWriter \<Rightarrow> ResponseWriter" where
  "WriteTo b w = (if length b > 0 then rw_Write b w else w)"

text \<open>
  An \<^verbatim>\<open>http.Handler\<close>. \<^verbatim>\<open>ServeHTTP\<close> calls it with a recorder on one path and with the
  caller's writer on the other, so the handler is given by what it does to each.
  The second component of the result is the request body as the handler leaves it.
\<close>

record 'u Handler =
  serveRecorder :: "ResponseRecorder \<Rightarrow> 'u Request \<Rightarrow> ResponseRecorder \<times> bytes"
  serveWriter :: "ResponseWriter \<Rightarrow> 'u Request \<Rightarrow> ResponseWriter \<times> bytes"

subsection \<open>The validation library\<close>

record ('u, 'rt) RequestValidationInput =
  Request :: "'u Request"
  PathParams :: pathParams
  Route :: 'rt

record ('u, 'rt) ResponseValidationInput =
  RequestValidationInput :: "('u, 'rt) RequestValidationInput"
  Status :: int
  Header :: header
  Body :: "bytes option"

definition SetBodyBytes ::
  "bytes \<Rightarrow> ('u, 'rt) ResponseValidationInput \<Rightarrow> ('u, 'rt) ResponseValidationInput" where
  "SetBodyBytes b input = input\<lparr>ResponseValidationInput.Body := Some b\<rparr>"

text \<open>
  The functions \<^verbatim>\<open>openapi3filter.ValidateRequest\<close> and
  \<^verbatim>\<open>openapi3filter.ValidateResponse\<close>, and \<^verbatim>\<open>url.URL.String\<close>. \<open>ValidateRequest\<close> returns
  its error together with the request body as it leaves it.
\<close>

record ('u, 'rt) lib =
  ValidateRequest :: "('u, 'rt) RequestValidationInput \<Rightarrow> string option \<times> bytes"
  ValidateResponse :: "('u, 'rt) ResponseValidationInput \<Rightarrow> string option"
  String :: "'u \<Rightarrow> string"

subsection \<open>The middleware\<close>

record validationIssue =
  Method :: string
  URI :: string
  Description :: string

text \<open>The field \<open>router\<close> is the router's \<^verbatim>\<open>FindRoute\<close> method.\<close>

record ('u, 'rt) Middleware =
  router :: "string \<Rightarrow> 'u \<Rightarrow> string + ('rt \<times> pathParams)"
  "next" :: "'u Handler"
  issues :: "validationIssue list"

definition addIssue ::
  "('u, 'rt) lib \<Rightarrow> ('u, 'rt) Middleware \<Rightarrow> string \<Rightarrow> 'u \<Rightarrow> string \<Rightarrow> ('u, 'rt) Middleware" where
  "addIssue l c method url description =
     c\<lparr>issues := issues c @
       [\<lparr>Method = method, URI = String l url, Description = description\<rparr>]\<rparr>"

text \<open>
  The calls an exchange makes to its collaborators, in the order it makes them.
  \<open>CallNext\<close> carries the writer the handler was given and the request it was
  called with.
\<close>

datatype target = Recorder | Writer

datatype ('u, 'rt) call =
    CallFindRoute string 'u
  | CallValidateRequest "('u, 'rt) RequestValidationInput"
  | CallNext target "'u Request"
  | CallValidateResponse "('u, 'rt) ResponseValidationInput"

text \<open>What one call of \<^verbatim>\<open>ServeHTTP\<close> leaves behind: the middleware, the caller's
  writer, the request body and the calls made.\<close>

record ('u, 'rt) exchange =
  mw :: "('u, 'rt) Middleware"
  rw :: ResponseWriter
  body_left :: bytes
  calls :: "('u, 'rt) call list"

definition ServeHTTP ::
  "('u, 'rt) lib \<Rightarrow> ('u, 'rt) Middleware \<Rightarrow> ResponseWriter \<Rightarrow> 'u Request \<Rightarrow> ('u, 'rt) exchange" where
  "ServeHTTP l c w r =
    (case router c (Request.Method r) (URL r) of
       Inl err \<Rightarrow>
         (let c1 = addIssue l c (Request.Method r) (URL r)
                     (''Route not found in specification: '' @ err);
              (w1, b1) = serveWriter (next c) w r
          in \<lparr>mw = c1, rw = w1, body_left = b1,
              calls = [CallFindRoute (Request.Method r) (URL r), CallNext Writer r]\<rparr>)
     | Inr (route, pathParams) \<Rightarrow>
         (let reqValInput = \<lparr>Request = r, PathParams = pathParams, Route = route\<rparr>;
              (verr, b1) = ValidateRequest l reqValInput;
              r1 = r\<lparr>Request.Body := b1\<rparr>;
              c1 = (case verr of
                      Some e \<Rightarrow> addIssue l c (Request.Method r1) (URL r1)
                                  (''Invalid request: '' @ e)
                    | None \<Rightarrow> c);
              (recorder, b2) = serveRecorder (next c) NewRecorder r1;
              r2 = r1\<lparr>Request.Body := b2\<rparr>;
              w1 = w\<lparr>ResponseWriter.Header := ResponseWriter.Header w ++ HeaderMap recorder\<rparr>;
              w2 = rw_WriteHeader (Code recorder) w1;
              w3 = WriteTo (ResponseRecorder.Body recorder) w2;
              resValInput = \<lparr>RequestValidationInput = reqValInput\<lparr>Request := r2\<rparr>,
                             Status = Code recorder,
                             Header = HeaderMap recorder,
                             Body = None\<rparr>;
              bodyBytes = ResponseRecorder.Body recorder;
              cs = [CallFindRoute (Request.Method r) (URL r),
                    CallValidateRequest reqValInput, CallNext Recorder r1]
          in if length bodyBytes > 0 then
               (let resValInput1 = SetBodyBytes (ResponseRecorder.Body recorder) resValInput
                in case ValidateResponse l resValInput1 of
                     Some e \<Rightarrow>
                       \<lparr>mw = addIssue l c1 (Request.Method r2) (URL r2)
                               (''Invalid response: '' @ e),
                        rw = w3, body_left = b2,
                        calls = cs @ [CallValidateResponse resValInput1]\<rparr>
                   | None \<Rightarrow>
                       \<lparr>mw = c1, rw = w3, body_left = b2,
                        calls = cs @ [CallValidateResponse resValInput1]\<rparr>)
             else \<lparr>mw = c1, rw = w3, body_left = b2, calls = cs\<rparr>))"

text \<open>\<^verbatim>\<open>strings.Join\<close>.\<close>

fun Join :: "string list \<Rightarrow> string \<Rightarrow> string" where
  "Join [] sep = []"
| "Join [x] sep = x"
| "Join (x # y # ys) sep = x @ sep @ Join (y # ys) sep"

definition Validate :: "('u, 'rt) Middleware \<Rightarrow> string option" where
  "Validate c =
    (if length (issues c) = 0 then None
     else
       (let descriptions =
              map (\<lambda>issue. Method issue @ '' '' @ URI issue @ '': '' @ Description issue)
                (issues c)
        in Some (''Errors were found validating the API specification:\<newline>'' @
                 Join descriptions ''\<newline>---\<newline>'')))"


subsection \<open>Vocabulary of the properties\<close>

text \<open>Calls of the wrapped handler and of response validation among the calls of an
  exchange.\<close>

fun isNext :: "('u, 'rt) call \<Rightarrow> bool" where
  "isNext (CallNext t r) = True"
| "isNext _ = False"

fun isValidateResponse :: "('u, 'rt) call \<Rightarrow> bool" where
  "isValidateResponse (CallValidateResponse i) = True"
| "isValidateResponse _ = False"

text \<open>
  The caller's writer after a captured response has been replayed to it as the
  specification words it: all captured headers are copied, then the captured status
  code is written, then the captured body bytes.
\<close>

definition replayed :: "ResponseRecorder \<Rightarrow> ResponseWriter \<Rightarrow> ResponseWriter" where
  "replayed recorder w =
     w\<lparr>ResponseWriter.Header := ResponseWriter.Header w ++ HeaderMap recorder,
       written := written w @
         WriteHeader (Code recorder) (ResponseWriter.Header w ++ HeaderMap recorder) #
         (if ResponseRecorder.Body recorder = [] then []
          else [Write (ResponseRecorder.Body recorder)])\<rparr>"

definition isInvalidRequest :: "validationIssue \<Rightarrow> bool" where
  "isInvalidRequest i = prefix ''Invalid request: '' (Description i)"

definition isInvalidResponse :: "validationIssue \<Rightarrow> bool" where
  "isInvalidResponse i = prefix ''Invalid response: '' (Description i)"

text \<open>One issue as the aggregate error shows it.\<close>

definition render :: "validationIssue \<Rightarrow> string" where
  "render issue = Method issue @ '' '' @ URI issue @ '': '' @ Description issue"

subsection \<open>The exchanges of the package's tests\<close>

text \<open>
  Concrete collaborators after \<^verbatim>\<open>TestMiddleware_ServeHTTP\<close>: URLs are their string
  form, a route is its operation id, and the router and the validation functions
  answer as the pet store contract does on the requests of the tests.
\<close>

definition petStoreRouter :: "string \<Rightarrow> string \<Rightarrow> string + (string \<times> pathParams)" where
  "petStoreRouter method url =
     (if url = ''http://petstore.swagger.io/v1/pets'' \<and> method = ''GET''
        then Inr (''listPets'', Map.empty)
      else if url = ''http://petstore.swagger.io/v1/pets'' \<and> method = ''POST''
        then Inr (''createPets'', Map.empty)
      else Inl ''Does not match any server'')"

definition petStoreLib :: "(string, string) lib" where
  "petStoreLib =
     \<lparr>ValidateRequest = (\<lambda>input.
        (if Route input = ''createPets'' \<and>
            Request.Header (Request input) ''Content-Type'' \<noteq> Some [''application/json'']
         then Some ''Request body has an error'' else None,
         Request.Body (Request input))),
      ValidateResponse = (\<lambda>input.
        if ResponseValidationInput.Header input ''Content-Type'' = Some [''application/json'']
        then None else Some ''unexpected Content-Type''),
      String = (\<lambda>u. u)\<rparr>"

text \<open>The handler of the valid GET test: content type, status 200, a JSON body.\<close>

definition listPets :: "string Handler" where
  "listPets =
     \<lparr>serveRecorder = (\<lambda>rec r.
        (rec\<lparr>Code := 200,
             HeaderMap := (HeaderMap rec)(''Content-Type'' \<mapsto> [''application/json'']),
             ResponseRecorder.Body := ResponseRecorder.Body rec @ ''[]''\<rparr>,
         Request.Body r)),
      serveWriter = (\<lambda>w r.
        (rw_Write ''[]'' (rw_WriteHeader 200
           (w\<lparr>ResponseWriter.Header :=
                (ResponseWriter.Header w)(''Content-Type'' \<mapsto> [''application/json''])\<rparr>)),
         Request.Body r))\<rparr>"

text \<open>The handler of the response format test: the same without the content type.\<close>

definition listPetsUntyped :: "string Handler" where
  "listPetsUntyped =
     \<lparr>serveRecorder = (\<lambda>rec r.
        (rec\<lparr>Code := 200, ResponseRecorder.Body := ResponseRecorder.Body rec @ ''[]''\<rparr>,
         Request.Body r)),
      serveWriter = (\<lambda>w r. (rw_Write ''[]'' (rw_WriteHeader 200 w), Request.Body r))\<rparr>"

text \<open>The handler of the POST tests: it reads the request body and answers 200 with
  no body.\<close>

definition statusOK :: "string Handler" where
  "statusOK =
     \<lparr>serveRecorder = (\<lambda>rec r. (rec\<lparr>Code := 200\<rparr>, [])),
      serveWriter = (\<lambda>w r. (rw_WriteHeader 200 w, []))\<rparr>"

text \<open>A handler that reads one byte of the request body and writes it back.\<close>

definition echoByte :: "string Handler" where
  "echoByte =
     \<lparr>serveRecorder = (\<lambda>rec r.
        (rec\<lparr>ResponseRecorder.Body := ResponseRecorder.Body rec @ take 1 (Request.Body r)\<rparr>,
         drop 1 (Request.Body r))),
      serveWriter = (\<lambda>w r. (WriteTo (take 1 (Request.Body r)) w, drop 1 (Request.Body r)))\<rparr>"

text \<open>A validation library whose \<open>ValidateRequest\<close> accepts every request, reads its
  body to the end and does not put it back.\<close>

definition drainingLib :: "(string, string) lib" where
  "drainingLib = petStoreLib\<lparr>ValidateRequest := (\<lambda>input. (None, []))\<rparr>"

definition setUp :: "string Handler \<Rightarrow> (string, string) Middleware" where
  "setUp handler = \<lparr>router = petStoreRouter, next = handler, issues = []\<rparr>"

definition newWriter :: ResponseWriter where
  "newWriter = \<lparr>ResponseWriter.Header = Map.empty, written = []\<rparr>"

definition getPets :: "string Request" where
  "getPets = \<lparr>Request.Method = ''GET'', URL = ''http://petstore.swagger.io/v1/pets'',
               Request.Header = Map.empty, Request.Body = []\<rparr>"

definition postPets :: "string Request" where
  "postPets = \<lparr>Request.Method = ''POST'', URL = ''http://petstore.swagger.io/v1/pets'',
                Request.Header = Map.empty, Request.Body = ''{}''\<rparr>"

definition getUndocumented :: "string Request" where
  "getUndocumented =
     \<lparr>Request.Method = ''GET'', URL = ''http://petstore.swagger.io/some-undocumented-path'',
      Request.Header = Map.empty, Request.Body = []\<rparr>"

text \<open>A middleware that has already recorded issues.\<close>

definition withIssues :: "validationIssue list \<Rightarrow> (string, string) Middleware" where
  "withIssues is = (setUp statusOK)\<lparr>issues := is\<rparr>"

section \<open>Properties\<close>

lemmas model_defs = ServeHTTP_def addIssue_def Let_def WriteTo_def rw_Write_def
  rw_WriteHeader_def SetBodyBytes_def

lemmas test_defs = petStoreRouter_def petStoreLib_def listPets_def listPetsUntyped_def
  statusOK_def setUp_def newWriter_def getPets_def postPets_def getUndocumented_def
  NewRecorder_def withIssues_def echoByte_def drainingLib_def

lemma Join_concat:
  "Join (x # xs) sep = x @ concat (map (\<lambda>y. sep @ y) xs)"
  by (induction xs arbitrary: x) simp_all

lemma getPets_route:
  "router (setUp h) (Request.Method getPets) (URL getPets) = Inr (''listPets'', Map.empty)"
  by (simp add: test_defs)

lemma postPets_route:
  "router (setUp h) (Request.Method postPets) (URL postPets) = Inr (''createPets'', Map.empty)"
  by (simp add: test_defs)

lemma getUndocumented_route:
  "router (setUp h) (Request.Method getUndocumented) (URL getUndocumented)
     = Inl ''Does not match any server''"
  by (simp add: test_defs)

lemma getPets_valid:
  "ValidateRequest petStoreLib
     \<lparr>Request = getPets, PathParams = Map.empty, Route = ''listPets''\<rparr> = (None, [])"
  by (simp add: test_defs)

lemma postPets_invalid:
  "ValidateRequest petStoreLib
     \<lparr>Request = postPets, PathParams = Map.empty, Route = ''createPets''\<rparr>
   = (Some ''Request body has an error'', ''{}'')"
  by (simp add: test_defs)

lemma listPets_recorded:
  "serveRecorder (next (setUp listPets)) NewRecorder (getPets\<lparr>Request.Body := []\<rparr>)
   = (\<lparr>Code = 200, HeaderMap = [''Content-Type'' \<mapsto> [''application/json'']],
       Body = ''[]''\<rparr>, [])"
  by (simp add: test_defs)

lemma listPetsUntyped_recorded:
  "serveRecorder (next (setUp listPetsUntyped)) NewRecorder (getPets\<lparr>Request.Body := []\<rparr>)
   = (\<lparr>Code = 200, HeaderMap = Map.empty, Body = ''[]''\<rparr>, [])"
  by (simp add: test_defs)

lemma statusOK_recorded:
  "serveRecorder (next (setUp statusOK)) NewRecorder (postPets\<lparr>Request.Body := ''{}''\<rparr>)
   = (\<lparr>Code = 200, HeaderMap = Map.empty, Body = []\<rparr>, [])"
  by (simp add: test_defs)

lemma listPetsUntyped_recorded_post:
  "serveRecorder (next (setUp listPetsUntyped)) NewRecorder (postPets\<lparr>Request.Body := ''{}''\<rparr>)
   = (\<lparr>Code = 200, HeaderMap = Map.empty, Body = ''[]''\<rparr>, ''{}'')"
  by (simp add: test_defs)

lemma ServeHTTP_not_found:
  assumes "router c (Request.Method r) (URL r) = Inl err"
  shows "rw (ServeHTTP l c w r) = fst (serveWriter (next c) w r)"
    and "body_left (ServeHTTP l c w r) = snd (serveWriter (next c) w r)"
    and "calls (ServeHTTP l c w r) = [CallFindRoute (Request.Method r) (URL r), CallNext Writer r]"
  using assms by (simp_all add: model_defs split: prod.split)

lemma ServeHTTP_resolved:
  assumes "router c (Request.Method r) (URL r) = Inr (route, pp)"
    and "ValidateRequest l \<lparr>Request = r, PathParams = pp, Route = route\<rparr> = (verr, b1)"
    and "serveRecorder (next c) NewRecorder (r\<lparr>Request.Body := b1\<rparr>) = (recorder, b2)"
  shows "rw (ServeHTTP l c w r) = replayed recorder w"
    and "body_left (ServeHTTP l c w r) = b2"
    and "take 3 (calls (ServeHTTP l c w r)) =
          [CallFindRoute (Request.Method r) (URL r),
           CallValidateRequest \<lparr>Request = r, PathParams = pp, Route = route\<rparr>,
           CallNext Recorder (r\<lparr>Request.Body := b1\<rparr>)]"
    and "filter isNext (calls (ServeHTTP l c w r)) = [CallNext Recorder (r\<lparr>Request.Body := b1\<rparr>)]"
  using assms
  by (simp_all add: model_defs replayed_def split: option.split)

lemma fresh_setUp: "issues (setUp h) = []"
  by (simp add: setUp_def)

lemma postPets_unread: "postPets\<lparr>Request.Body := ''{}''\<rparr> = postPets"
  by (simp add: postPets_def)

lemma getPets_unread: "getPets\<lparr>Request.Body := []\<rparr> = getPets"
  by (simp add: getPets_def)


subsection \<open>Pass-through of the response\<close>

text \<open>
  Claim C1. Whatever the validation steps find, the caller's writer receives exactly
  what the wrapped handler produced. When no route is found the handler writes to
  the caller's writer itself. Otherwise the captured response is replayed: the
  captured headers are copied, then the captured status code is written, then the
  captured body bytes, none of them transformed.
\<close>

theorem ServeHTTP_passes_response_through:
  "(\<forall>err. router c (Request.Method r) (URL r) = Inl err \<longrightarrow>
      rw (ServeHTTP l c w r) = fst (serveWriter (next c) w r)) \<and>
   (\<forall>route pp. router c (Request.Method r) (URL r) = Inr (route, pp) \<longrightarrow>
      rw (ServeHTTP l c w r) =
        replayed (fst (serveRecorder (next c) NewRecorder
          (r\<lparr>Request.Body :=
               snd (ValidateRequest l \<lparr>Request = r, PathParams = pp, Route = route\<rparr>)\<rparr>))) w)"
  by (simp add: model_defs replayed_def split: sum.split prod.split option.split)

text \<open>The undocumented GET and the valid GET of the tests deliver the same response,
  one written by the handler, the other replayed.\<close>

theorem ServeHTTP_passes_response_through_witness:
  "rw (ServeHTTP petStoreLib (setUp listPets) newWriter getUndocumented) =
     \<lparr>ResponseWriter.Header = [''Content-Type'' \<mapsto> [''application/json'']],
      written = [WriteHeader 200 [''Content-Type'' \<mapsto> [''application/json'']], Write ''[]'']\<rparr>
   \<and> rw (ServeHTTP petStoreLib (setUp listPets) newWriter getPets) =
     \<lparr>ResponseWriter.Header = [''Content-Type'' \<mapsto> [''application/json'']],
      written = [WriteHeader 200 [''Content-Type'' \<mapsto> [''application/json'']], Write ''[]'']\<rparr>"
proof -
  from ServeHTTP_passes_response_through
         [of "setUp listPets" getUndocumented petStoreLib newWriter]
       getUndocumented_route
  have a: "rw (ServeHTTP petStoreLib (setUp listPets) newWriter getUndocumented) =
             fst (serveWriter (next (setUp listPets)) newWriter getUndocumented)"
    by blast
  from ServeHTTP_passes_response_through [of "setUp listPets" getPets petStoreLib newWriter]
       getPets_route
  have b: "rw (ServeHTTP petStoreLib (setUp listPets) newWriter getPets) =
        replayed (fst (serveRecorder (next (setUp listPets)) NewRecorder
          (getPets\<lparr>Request.Body :=
               snd (ValidateRequest petStoreLib
                 \<lparr>Request = getPets, PathParams = Map.empty, Route = ''listPets''\<rparr>)\<rparr>))) newWriter"
    by blast
  show ?thesis
    unfolding a b by (simp add: test_defs replayed_def rw_Write_def rw_WriteHeader_def)
qed

subsection \<open>Conforming exchanges\<close>

text \<open>
  Claim C2, amended. When the route resolves and request and response both pass
  validation, the exchange appends no issue, so \<open>Validate\<close> returns afterwards what
  it returned before the exchange: no error when the log was empty before it.
\<close>

theorem ServeHTTP_conforming_appends_nothing:
  assumes "router c (Request.Method r) (URL r) = Inr (route, pp)"
    and "ValidateRequest l \<lparr>Request = r, PathParams = pp, Route = route\<rparr> = (None, b1)"
    and "serveRecorder (next c) NewRecorder (r\<lparr>Request.Body := b1\<rparr>) = (recorder, b2)"
    and "ValidateResponse l
           \<lparr>RequestValidationInput =
              \<lparr>Request = r\<lparr>Request.Body := b2\<rparr>, PathParams = pp, Route = route\<rparr>,
            Status = Code recorder, Header = HeaderMap recorder,
            Body = Some (ResponseRecorder.Body recorder)\<rparr> = None"
  shows "issues (mw (ServeHTTP l c w r)) = issues c \<and>
         Validate (mw (ServeHTTP l c w r)) = Validate c \<and>
         (issues c = [] \<longrightarrow> Validate (mw (ServeHTTP l c w r)) = None)"
  using assms by (simp add: model_defs Validate_def)

text \<open>The valid GET of the tests on a new middleware.\<close>

theorem ServeHTTP_conforming_appends_nothing_witness:
  "issues (mw (ServeHTTP petStoreLib (setUp listPets) newWriter getPets)) = [] \<and>
   Validate (mw (ServeHTTP petStoreLib (setUp listPets) newWriter getPets)) = None"
proof -
  have resp: "ValidateResponse petStoreLib
           \<lparr>RequestValidationInput =
              \<lparr>Request = getPets\<lparr>Request.Body := []\<rparr>, PathParams = Map.empty,
               Route = ''listPets''\<rparr>,
            Status = Code \<lparr>Code = 200, HeaderMap = [''Content-Type'' \<mapsto> [''application/json'']],
                           Body = ''[]''\<rparr>,
            Header = HeaderMap \<lparr>Code = 200,
                        HeaderMap = [''Content-Type'' \<mapsto> [''application/json'']],
                        Body = ''[]''\<rparr>,
            Body = Some (ResponseRecorder.Body
                     \<lparr>Code = 200, HeaderMap = [''Content-Type'' \<mapsto> [''application/json'']],
                      Body = ''[]''\<rparr>)\<rparr> = None"
    by (simp add: test_defs)
  from ServeHTTP_conforming_appends_nothing
         [OF getPets_route getPets_valid listPets_recorded resp, where w = newWriter]
       fresh_setUp [of listPets]
  show ?thesis by metis
qed

text \<open>
  As the claim words it, \<open>Validate\<close> returns no error after every conforming
  exchange. It does not when an earlier exchange has left an issue: here the valid
  GET follows the undocumented GET on the same middleware.
\<close>

theorem ServeHTTP_conforming_after_issue_counterexample:
  "router (mw (ServeHTTP petStoreLib (setUp listPets) newWriter getUndocumented))
     (Request.Method getPets) (URL getPets) = Inr (''listPets'', Map.empty)
   \<and> calls (ServeHTTP petStoreLib
        (mw (ServeHTTP petStoreLib (setUp listPets) newWriter getUndocumented))
        newWriter getPets)
     = [CallFindRoute ''GET'' ''http://petstore.swagger.io/v1/pets'',
        CallValidateRequest \<lparr>Request = getPets, PathParams = Map.empty, Route = ''listPets''\<rparr>,
        CallNext Recorder getPets,
        CallValidateResponse
          \<lparr>RequestValidationInput =
             \<lparr>Request = getPets, PathParams = Map.empty, Route = ''listPets''\<rparr>,
           Status = 200, Header = [''Content-Type'' \<mapsto> [''application/json'']],
           Body = Some ''[]''\<rparr>]
   \<and> ValidateRequest petStoreLib
        \<lparr>Request = getPets, PathParams = Map.empty, Route = ''listPets''\<rparr> = (None, [])
   \<and> ValidateResponse petStoreLib
          \<lparr>RequestValidationInput =
             \<lparr>Request = getPets, PathParams = Map.empty, Route = ''listPets''\<rparr>,
           Status = 200, Header = [''Content-Type'' \<mapsto> [''application/json'']],
           Body = Some ''[]''\<rparr> = None
   \<and> Validate (mw (ServeHTTP petStoreLib
        (mw (ServeHTTP petStoreLib (setUp listPets) newWriter getUndocumented))
        newWriter getPets)) \<noteq> None"
  by (simp add: test_defs model_defs Validate_def)

subsection \<open>Route not found\<close>

text \<open>
  Claim C3. When the router finds no route, the exchange appends exactly one issue,
  described as \<open>Route not found in specification: \<close> followed by the router's
  error; the only calls are the one to the router and one call of the handler, with
  the request as received and the caller's own writer, so the response is the
  handler's as written; and the validation functions play no part in the outcome.
\<close>

theorem ServeHTTP_route_not_found:
  assumes "router c (Request.Method r) (URL r) = Inl err"
  shows "issues (mw (ServeHTTP l c w r)) = issues c @
           [\<lparr>Method = Request.Method r, URI = String l (URL r),
             Description = ''Route not found in specification: '' @ err\<rparr>]
       \<and> calls (ServeHTTP l c w r) = [CallFindRoute (Request.Method r) (URL r), CallNext Writer r]
       \<and> rw (ServeHTTP l c w r) = fst (serveWriter (next c) w r)
       \<and> ServeHTTP (l\<lparr>ValidateRequest := vq, ValidateResponse := vs\<rparr>) c w r = ServeHTTP l c w r"
  using assms by (simp add: model_defs split: sum.split prod.split option.split)

text \<open>The undocumented GET of the tests.\<close>

theorem ServeHTTP_route_not_found_witness:
  "issues (mw (ServeHTTP petStoreLib (setUp statusOK) newWriter getUndocumented)) =
     [\<lparr>Method = ''GET'', URI = ''http://petstore.swagger.io/some-undocumented-path'',
       Description = ''Route not found in specification: Does not match any server''\<rparr>]
   \<and> rw (ServeHTTP petStoreLib (setUp statusOK) newWriter getUndocumented) =
     \<lparr>ResponseWriter.Header = Map.empty, written = [WriteHeader 200 Map.empty]\<rparr>"
proof -
  have "String petStoreLib (URL getUndocumented)
           = ''http://petstore.swagger.io/some-undocumented-path''"
    and "Request.Method getUndocumented = ''GET''"
    and "fst (serveWriter (next (setUp statusOK)) newWriter getUndocumented)
           = \<lparr>ResponseWriter.Header = Map.empty, written = [WriteHeader 200 Map.empty]\<rparr>"
    by (simp_all add: test_defs rw_WriteHeader_def)
  with ServeHTTP_route_not_found
         [OF getUndocumented_route [of statusOK], where l = petStoreLib and w = newWriter]
       fresh_setUp [of statusOK]
  show ?thesis by simp
qed


subsection \<open>Invalid requests\<close>

text \<open>
  Claim C4, amended. When the request fails validation against the resolved route,
  the exchange appends exactly one issue described as \<open>Invalid request: \<close> followed
  by the engine's error, and goes on: the handler is applied once to the request as
  validation left it, its response is replayed, and the response is validated
  whenever the captured body is not empty. Then the log also receives what
  \<open>ValidateResponse\<close> answers on the captured response. An empty body skips
  response validation, as it does for any exchange: the outcome is the same whatever
  \<open>ValidateResponse\<close> would answer.
\<close>

theorem ServeHTTP_invalid_request_continues:
  assumes "router c (Request.Method r) (URL r) = Inr (route, pp)"
    and "ValidateRequest l \<lparr>Request = r, PathParams = pp, Route = route\<rparr> = (Some e, b1)"
    and "serveRecorder (next c) NewRecorder (r\<lparr>Request.Body := b1\<rparr>) = (recorder, b2)"
  shows "(\<exists>new. issues (mw (ServeHTTP l c w r)) = issues c @ new
           \<and> new =
               \<lparr>Method = Request.Method r, URI = String l (URL r),
                Description = ''Invalid request: '' @ e\<rparr> #
               (if ResponseRecorder.Body recorder = [] then []
                else case ValidateResponse l
                       \<lparr>RequestValidationInput =
                          \<lparr>Request = r\<lparr>Request.Body := b2\<rparr>, PathParams = pp, Route = route\<rparr>,
                        Status = Code recorder, Header = HeaderMap recorder,
                        Body = Some (ResponseRecorder.Body recorder)\<rparr> of
                     None \<Rightarrow> []
                   | Some e' \<Rightarrow>
                       [\<lparr>Method = Request.Method r, URI = String l (URL r),
                         Description = ''Invalid response: '' @ e'\<rparr>])
           \<and> filter isInvalidRequest new =
               [\<lparr>Method = Request.Method r, URI = String l (URL r),
                 Description = ''Invalid request: '' @ e\<rparr>])
       \<and> rw (ServeHTTP l c w r) = replayed recorder w
       \<and> body_left (ServeHTTP l c w r) = b2
       \<and> filter isNext (calls (ServeHTTP l c w r)) = [CallNext Recorder (r\<lparr>Request.Body := b1\<rparr>)]
       \<and> (list_ex isValidateResponse (calls (ServeHTTP l c w r))
            \<longleftrightarrow> ResponseRecorder.Body recorder \<noteq> [])
       \<and> (ResponseRecorder.Body recorder = [] \<longrightarrow>
            ServeHTTP (l\<lparr>ValidateResponse := vs\<rparr>) c w r = ServeHTTP l c w r)"
  using assms
  by (simp add: model_defs replayed_def isInvalidRequest_def split: option.split)

text \<open>
  The POST without content type of the tests, answered with a body that has no
  content type either: the rejected request is followed by the handler's response
  and by the issue that response validation raises.
\<close>

theorem ServeHTTP_invalid_request_continues_witness:
  "issues (mw (ServeHTTP petStoreLib (setUp listPetsUntyped) newWriter postPets)) =
     [\<lparr>Method = ''POST'', URI = ''http://petstore.swagger.io/v1/pets'',
       Description = ''Invalid request: Request body has an error''\<rparr>,
      \<lparr>Method = ''POST'', URI = ''http://petstore.swagger.io/v1/pets'',
       Description = ''Invalid response: unexpected Content-Type''\<rparr>]
   \<and> rw (ServeHTTP petStoreLib (setUp listPetsUntyped) newWriter postPets) =
     \<lparr>ResponseWriter.Header = Map.empty,
      written = [WriteHeader 200 Map.empty, Write ''[]'']\<rparr>
   \<and> body_left (ServeHTTP petStoreLib (setUp listPetsUntyped) newWriter postPets) = ''{}''"
proof -
  have fails: "ValidateResponse petStoreLib
           \<lparr>RequestValidationInput =
              \<lparr>Request = postPets\<lparr>Request.Body := ''{}''\<rparr>, PathParams = Map.empty,
               Route = ''createPets''\<rparr>,
            Status = Code \<lparr>Code = 200, HeaderMap = Map.empty, Body = ''[]''\<rparr>,
            Header = HeaderMap \<lparr>Code = 200, HeaderMap = Map.empty, Body = ''[]''\<rparr>,
            Body = Some (ResponseRecorder.Body
                     \<lparr>Code = 200, HeaderMap = Map.empty, Body = ''[]''\<rparr>)\<rparr>
          = Some ''unexpected Content-Type''"
    by (simp add: test_defs)
  have facts: "String petStoreLib (URL postPets) = ''http://petstore.swagger.io/v1/pets''"
    "Request.Method postPets = ''POST''"
    "replayed \<lparr>Code = 200, HeaderMap = Map.empty, Body = ''[]''\<rparr> newWriter
           = \<lparr>ResponseWriter.Header = Map.empty,
              written = [WriteHeader 200 Map.empty, Write ''[]'']\<rparr>"
    "ResponseRecorder.Body \<lparr>Code = 200, HeaderMap = Map.empty, Body = ''[]''\<rparr> \<noteq> []"
    by (simp_all add: test_defs replayed_def)
  from ServeHTTP_invalid_request_continues
         [OF postPets_route postPets_invalid listPetsUntyped_recorded_post, where w = newWriter]
  show ?thesis
    unfolding fails facts fresh_setUp by simp
qed

text \<open>
  As the claim words it, response validation takes place after every invalid
  request. In the request format test it does not: the handler writes no body, and
  although \<open>ValidateResponse\<close> would reject the captured response, the exchange
  ends with the request issue alone and without a call of \<open>ValidateResponse\<close>.
\<close>

theorem ServeHTTP_invalid_request_empty_body_counterexample:
  "router (setUp statusOK) (Request.Method postPets) (URL postPets)
     = Inr (''createPets'', Map.empty)
   \<and> fst (ValidateRequest petStoreLib
        \<lparr>Request = postPets, PathParams = Map.empty, Route = ''createPets''\<rparr>)
     = Some ''Request body has an error''
   \<and> fst (serveRecorder (next (setUp statusOK)) NewRecorder postPets)
     = \<lparr>Code = 200, HeaderMap = Map.empty, Body = []\<rparr>
   \<and> ValidateResponse petStoreLib
        \<lparr>RequestValidationInput =
           \<lparr>Request = postPets\<lparr>Request.Body := []\<rparr>, PathParams = Map.empty,
            Route = ''createPets''\<rparr>,
         Status = 200, Header = Map.empty, Body = None\<rparr>
     = Some ''unexpected Content-Type''
   \<and> issues (mw (ServeHTTP petStoreLib (setUp statusOK) newWriter postPets)) =
       [\<lparr>Method = ''POST'', URI = ''http://petstore.swagger.io/v1/pets'',
         Description = ''Invalid request: Request body has an error''\<rparr>]
   \<and> \<not> list_ex isValidateResponse
         (calls (ServeHTTP petStoreLib (setUp statusOK) newWriter postPets))"
  by (simp add: test_defs model_defs)

subsection \<open>Response validation\<close>

text \<open>
  Claim C5. On a resolved route, when the captured body is empty no call of
  \<open>ValidateResponse\<close> is made, no \<open>Invalid response\<close> issue is appended and the
  outcome is the same whatever \<open>ValidateResponse\<close> would have answered; when the
  captured body is not empty and \<open>ValidateResponse\<close> returns an error, exactly one
  issue described as \<open>Invalid response: \<close> followed by that error is appended.
\<close>

theorem ServeHTTP_response_validation:
  assumes "router c (Request.Method r) (URL r) = Inr (route, pp)"
    and "ValidateRequest l \<lparr>Request = r, PathParams = pp, Route = route\<rparr> = (verr, b1)"
    and "serveRecorder (next c) NewRecorder (r\<lparr>Request.Body := b1\<rparr>) = (recorder, b2)"
  shows "(ResponseRecorder.Body recorder = [] \<longrightarrow>
            \<not> list_ex isValidateResponse (calls (ServeHTTP l c w r))
          \<and> (\<exists>new. issues (mw (ServeHTTP l c w r)) = issues c @ new
                  \<and> filter isInvalidResponse new = [])
          \<and> ServeHTTP (l\<lparr>ValidateResponse := vs\<rparr>) c w r = ServeHTTP l c w r)
       \<and> (\<forall>e. ResponseRecorder.Body recorder \<noteq> [] \<longrightarrow>
            ValidateResponse l
              \<lparr>RequestValidationInput =
                 \<lparr>Request = r\<lparr>Request.Body := b2\<rparr>, PathParams = pp, Route = route\<rparr>,
               Status = Code recorder, Header = HeaderMap recorder,
               Body = Some (ResponseRecorder.Body recorder)\<rparr> = Some e \<longrightarrow>
            (\<exists>new. issues (mw (ServeHTTP l c w r)) = issues c @ new
                  \<and> filter isInvalidResponse new =
                      [\<lparr>Method = Request.Method r, URI = String l (URL r),
                        Description = ''Invalid response: '' @ e\<rparr>]))"
  using assms
  by (simp add: model_defs isInvalidResponse_def split: option.split)

text \<open>
  The POST of the tests, whose empty 200 response has no content type and is not
  validated, and the GET of the tests whose body comes without a content type.
\<close>

theorem ServeHTTP_response_validation_witness:
  "ValidateResponse petStoreLib
     \<lparr>RequestValidationInput =
        \<lparr>Request = postPets, PathParams = Map.empty, Route = ''createPets''\<rparr>,
      Status = 200, Header = Map.empty, Body = None\<rparr> = Some ''unexpected Content-Type''
   \<and> filter isInvalidResponse
       (issues (mw (ServeHTTP petStoreLib (setUp statusOK) newWriter postPets))) = []
   \<and> filter isInvalidResponse
       (issues (mw (ServeHTTP petStoreLib (setUp listPetsUntyped) newWriter getPets))) =
       [\<lparr>Method = ''GET'', URI = ''http://petstore.swagger.io/v1/pets'',
         Description = ''Invalid response: unexpected Content-Type''\<rparr>]"
proof -
  have fails: "ValidateResponse petStoreLib
           \<lparr>RequestValidationInput =
              \<lparr>Request = getPets\<lparr>Request.Body := []\<rparr>, PathParams = Map.empty,
               Route = ''listPets''\<rparr>,
            Status = Code \<lparr>Code = 200, HeaderMap = Map.empty, Body = ''[]''\<rparr>,
            Header = HeaderMap \<lparr>Code = 200, HeaderMap = Map.empty, Body = ''[]''\<rparr>,
            Body = Some (ResponseRecorder.Body
                     \<lparr>Code = 200, HeaderMap = Map.empty, Body = ''[]''\<rparr>)\<rparr>
          = Some ''unexpected Content-Type''"
    by (simp add: test_defs)
  have a: "ValidateResponse petStoreLib
     \<lparr>RequestValidationInput =
        \<lparr>Request = postPets, PathParams = Map.empty, Route = ''createPets''\<rparr>,
      Status = 200, Header = Map.empty, Body = None\<rparr> = Some ''unexpected Content-Type''"
    by (simp add: test_defs)
  from ServeHTTP_response_validation
         [OF postPets_route postPets_invalid statusOK_recorded, where w = newWriter]
       fresh_setUp [of statusOK]
  have b: "filter isInvalidResponse
       (issues (mw (ServeHTTP petStoreLib (setUp statusOK) newWriter postPets))) = []"
    by auto
  have "String petStoreLib (URL getPets) = ''http://petstore.swagger.io/v1/pets''"
    and "Request.Method getPets = ''GET''"
    by (simp_all add: test_defs)
  with ServeHTTP_response_validation
         [OF getPets_route getPets_valid listPetsUntyped_recorded, where w = newWriter]
       fails fresh_setUp [of listPetsUntyped]
  have c: "filter isInvalidResponse
       (issues (mw (ServeHTTP petStoreLib (setUp listPetsUntyped) newWriter getPets))) =
       [\<lparr>Method = ''GET'', URI = ''http://petstore.swagger.io/v1/pets'',
         Description = ''Invalid response: unexpected Content-Type''\<rparr>]"
    by auto
  from a b c show ?thesis by simp
qed


subsection \<open>The aggregate error\<close>

text \<open>
  Claim C6, amended. \<open>Validate\<close> returns no error exactly when the log is empty.
  Otherwise it returns one error whose text is the fixed heading
  \<open>Errors were found validating the API specification:\<close> and a line break,
  followed by every issue rendered as method, space, URI, colon, space,
  description, in log order, each but the first preceded by the delimiter made of
  a line break, three dashes and a line break.
\<close>

theorem Validate_text:
  "(Validate c = None \<longleftrightarrow> issues c = []) \<and>
   (\<forall>i is. issues c = i # is \<longrightarrow>
      Validate c = Some (''Errors were found validating the API specification:\<newline>'' @
        render i @ concat (map (\<lambda>j. ''\<newline>---\<newline>'' @ render j) is)))"
  by (simp add: Validate_def Join_concat render_def comp_def)

text \<open>A log of two issues.\<close>

theorem Validate_text_witness:
  "Validate (withIssues
     [\<lparr>Method = ''GET'', URI = ''/a'', Description = ''x''\<rparr>,
      \<lparr>Method = ''POST'', URI = ''/b'', Description = ''y''\<rparr>])
   = Some ''Errors were found validating the API specification:\<newline>GET /a: x\<newline>---\<newline>POST /b: y''"
proof -
  have "issues (withIssues
     [\<lparr>Method = ''GET'', URI = ''/a'', Description = ''x''\<rparr>,
      \<lparr>Method = ''POST'', URI = ''/b'', Description = ''y''\<rparr>])
    = \<lparr>Method = ''GET'', URI = ''/a'', Description = ''x''\<rparr> #
      [\<lparr>Method = ''POST'', URI = ''/b'', Description = ''y''\<rparr>]"
    by (simp add: withIssues_def)
  with Validate_text [of "withIssues
     [\<lparr>Method = ''GET'', URI = ''/a'', Description = ''x''\<rparr>,
      \<lparr>Method = ''POST'', URI = ''/b'', Description = ''y''\<rparr>]"]
  have "Validate (withIssues
     [\<lparr>Method = ''GET'', URI = ''/a'', Description = ''x''\<rparr>,
      \<lparr>Method = ''POST'', URI = ''/b'', Description = ''y''\<rparr>])
    = Some (''Errors were found validating the API specification:\<newline>'' @
        render \<lparr>Method = ''GET'', URI = ''/a'', Description = ''x''\<rparr> @
        concat (map (\<lambda>j. ''\<newline>---\<newline>'' @ render j)
          [\<lparr>Method = ''POST'', URI = ''/b'', Description = ''y''\<rparr>]))"
    by blast
  then show ?thesis by (simp add: render_def)
qed

text \<open>
  As the claim words it, the text is the concatenation of the rendered issues and
  nothing else. With a single issue in the log that would be the rendered issue
  itself; the error carries the heading before it.
\<close>

theorem Validate_heading_counterexample:
  "Validate (withIssues [\<lparr>Method = ''GET'', URI = ''/a'', Description = ''x''\<rparr>])
     = Some ''Errors were found validating the API specification:\<newline>GET /a: x''
   \<and> render \<lparr>Method = ''GET'', URI = ''/a'', Description = ''x''\<rparr> = ''GET /a: x''
   \<and> Validate (withIssues [\<lparr>Method = ''GET'', URI = ''/a'', Description = ''x''\<rparr>])
     \<noteq> Some (render \<lparr>Method = ''GET'', URI = ''/a'', Description = ''x''\<rparr>)"
  by (simp add: Validate_def withIssues_def render_def)

subsection \<open>The wrapped handler\<close>

text \<open>
  Claim C7. Whenever the router returns, with an error or with a route,
  \<open>ServeHTTP\<close> calls the wrapped handler exactly once: the caller's writer and the
  request body are left as one application of the handler leaves them (to the
  caller's writer and the request as received when no route is found, to a new
  recorder and the request as validation left it otherwise, the recorder then being
  replayed), and the calls of the exchange hold one call of the handler.
\<close>

theorem ServeHTTP_calls_next_once:
  "(\<forall>err. router c (Request.Method r) (URL r) = Inl err \<longrightarrow>
      (rw (ServeHTTP l c w r), body_left (ServeHTTP l c w r)) = serveWriter (next c) w r
      \<and> length (filter isNext (calls (ServeHTTP l c w r))) = 1) \<and>
   (\<forall>route pp recorder b2.
      router c (Request.Method r) (URL r) = Inr (route, pp) \<longrightarrow>
      serveRecorder (next c) NewRecorder
        (r\<lparr>Request.Body :=
             snd (ValidateRequest l \<lparr>Request = r, PathParams = pp, Route = route\<rparr>)\<rparr>)
        = (recorder, b2) \<longrightarrow>
      rw (ServeHTTP l c w r) = replayed recorder w
      \<and> body_left (ServeHTTP l c w r) = b2
      \<and> length (filter isNext (calls (ServeHTTP l c w r))) = 1)"
proof (intro conjI allI impI)
  fix err
  assume nf: "router c (Request.Method r) (URL r) = Inl err"
  show "(rw (ServeHTTP l c w r), body_left (ServeHTTP l c w r)) = serveWriter (next c) w r"
    by (simp add: ServeHTTP_not_found [OF nf])
  show "length (filter isNext (calls (ServeHTTP l c w r))) = 1"
    by (simp add: ServeHTTP_not_found [OF nf])
next
  fix route pp recorder b2
  assume ok: "router c (Request.Method r) (URL r) = Inr (route, pp)"
    and served: "serveRecorder (next c) NewRecorder
        (r\<lparr>Request.Body :=
             snd (ValidateRequest l \<lparr>Request = r, PathParams = pp, Route = route\<rparr>)\<rparr>)
        = (recorder, b2)"
  obtain verr b1 where
    validated: "ValidateRequest l \<lparr>Request = r, PathParams = pp, Route = route\<rparr> = (verr, b1)"
    by (cases "ValidateRequest l \<lparr>Request = r, PathParams = pp, Route = route\<rparr>")
  from served validated
  have served1: "serveRecorder (next c) NewRecorder (r\<lparr>Request.Body := b1\<rparr>) = (recorder, b2)"
    by simp
  show "rw (ServeHTTP l c w r) = replayed recorder w"
    by (rule ServeHTTP_resolved [OF ok validated served1])
  show "body_left (ServeHTTP l c w r) = b2"
    by (rule ServeHTTP_resolved [OF ok validated served1])
  show "length (filter isNext (calls (ServeHTTP l c w r))) = 1"
    by (simp add: ServeHTTP_resolved(4) [OF ok validated served1])
qed

text \<open>
  The undocumented GET of the tests, and the POST of the tests sent to a handler
  that reads one byte: one byte is written back and one byte is left, where two
  applications would leave none.
\<close>

theorem ServeHTTP_calls_next_once_witness:
  "rw (ServeHTTP petStoreLib (setUp statusOK) newWriter getUndocumented) =
     \<lparr>ResponseWriter.Header = Map.empty, written = [WriteHeader 200 Map.empty]\<rparr>
   \<and> rw (ServeHTTP petStoreLib (setUp echoByte) newWriter postPets) =
     \<lparr>ResponseWriter.Header = Map.empty,
      written = [WriteHeader 200 Map.empty, Write ''{'']\<rparr>
   \<and> body_left (ServeHTTP petStoreLib (setUp echoByte) newWriter postPets) = ''}''"
proof -
  have direct: "serveWriter (next (setUp statusOK)) newWriter getUndocumented
      = (\<lparr>ResponseWriter.Header = Map.empty, written = [WriteHeader 200 Map.empty]\<rparr>, [])"
    by (simp add: test_defs rw_WriteHeader_def)
  from ServeHTTP_calls_next_once
         [where l = petStoreLib and c = "setUp statusOK" and w = newWriter and r = getUndocumented]
       getUndocumented_route [of statusOK] direct
  have a: "rw (ServeHTTP petStoreLib (setUp statusOK) newWriter getUndocumented) =
     \<lparr>ResponseWriter.Header = Map.empty, written = [WriteHeader 200 Map.empty]\<rparr>"
    by (metis fst_conv)
  have recorded: "serveRecorder (next (setUp echoByte)) NewRecorder
        (postPets\<lparr>Request.Body :=
             snd (ValidateRequest petStoreLib
               \<lparr>Request = postPets, PathParams = Map.empty, Route = ''createPets''\<rparr>)\<rparr>)
        = (\<lparr>Code = 200, HeaderMap = Map.empty, Body = ''{''\<rparr>, ''}'')"
    by (simp add: test_defs)
  have shown: "replayed \<lparr>Code = 200, HeaderMap = Map.empty, Body = ''{''\<rparr> newWriter
      = \<lparr>ResponseWriter.Header = Map.empty,
         written = [WriteHeader 200 Map.empty, Write ''{'']\<rparr>"
    by (simp add: test_defs replayed_def)
  from ServeHTTP_calls_next_once
         [where l = petStoreLib and c = "setUp echoByte" and w = newWriter and r = postPets]
       postPets_route [of echoByte] recorded
  have "rw (ServeHTTP petStoreLib (setUp echoByte) newWriter postPets) =
          replayed \<lparr>Code = 200, HeaderMap = Map.empty, Body = ''{''\<rparr> newWriter
      \<and> body_left (ServeHTTP petStoreLib (setUp echoByte) newWriter postPets) = ''}''"
    by blast
  with a shown show ?thesis by simp
qed




subsection \<open>What one exchange appends\<close>

text \<open>
  Claim C10. One exchange leaves the issues already in the log in place and appends
  at most two: exactly one when no route is found; on a resolved route at most one
  \<open>Invalid request\<close> issue and at most one \<open>Invalid response\<close> issue and nothing
  else. Each appended issue carries the method of the request and the string form
  of its URL.
\<close>

theorem ServeHTTP_appends_at_most_two:
  "\<exists>new. issues (mw (ServeHTTP l c w r)) = issues c @ new
     \<and> length new \<le> 2
     \<and> (\<forall>i\<in>set new. Method i = Request.Method r \<and> URI i = String l (URL r))
     \<and> (case router c (Request.Method r) (URL r) of
          Inl err \<Rightarrow> length new = 1
        | Inr _ \<Rightarrow> length (filter isInvalidRequest new) \<le> 1
                \<and> length (filter isInvalidResponse new) \<le> 1
                \<and> (\<forall>i\<in>set new. isInvalidRequest i \<or> isInvalidResponse i))"
  by (simp add: model_defs isInvalidRequest_def isInvalidResponse_def
      split: sum.split prod.split option.split)

text \<open>A POST without content type answered with an untyped body: two issues.\<close>

theorem ServeHTTP_appends_at_most_two_witness:
  "issues (mw (ServeHTTP petStoreLib (setUp listPetsUntyped) newWriter postPets)) =
     [\<lparr>Method = ''POST'', URI = ''http://petstore.swagger.io/v1/pets'',
       Description = ''Invalid request: Request body has an error''\<rparr>,
      \<lparr>Method = ''POST'', URI = ''http://petstore.swagger.io/v1/pets'',
       Description = ''Invalid response: unexpected Content-Type''\<rparr>]
   \<and> length (issues (mw (ServeHTTP petStoreLib (setUp listPetsUntyped) newWriter postPets))) \<le> 2"
proof -
  have two: "issues (mw (ServeHTTP petStoreLib (setUp listPetsUntyped) newWriter postPets)) =
     [\<lparr>Method = ''POST'', URI = ''http://petstore.swagger.io/v1/pets'',
       Description = ''Invalid request: Request body has an error''\<rparr>,
      \<lparr>Method = ''POST'', URI = ''http://petstore.swagger.io/v1/pets'',
       Description = ''Invalid response: unexpected Content-Type''\<rparr>]"
    by (simp add: test_defs model_defs)
  from ServeHTTP_appends_at_most_two [of petStoreLib "setUp listPetsUntyped" newWriter postPets]
       fresh_setUp [of listPetsUntyped]
  have "length (issues (mw (ServeHTTP petStoreLib (setUp listPetsUntyped) newWriter postPets))) \<le> 2"
    by auto
  with two show ?thesis by blast
qed

end
